theory Spec2Isabelle
  imports Main "HOL-Library.AList"
begin

section \<open>JavaScript values\<close>

text \<open>
  The converted schemas, the Parameter Objects and the shared-schema store are plain
  JavaScript objects. A value is \<open>undefined\<close>, \<open>null\<close>, a boolean, a number, a string, an
  array or an object. Numbers are the integers (a double that is an integer below
  \<open>10^21\<close> prints as its decimal digits). An object is the list of its own enumerable
  properties in the order JavaScript enumerates them, each key once.
\<close>

datatype jsval =
    JUndefined
  | JNull
  | JBool bool
  | JNum int
  | JStr string
  | JArr "jsval list"
  | JObj "(string \<times> jsval) list"

type_synonym obj = "(string \<times> jsval) list"

text \<open>What the code can throw: a \<open>TypeError\<close> of the language, or whatever the schema
  converter throws.\<close>

datatype error = TypeError | ConverterError

fun bindE :: "error + 'a \<Rightarrow> ('a \<Rightarrow> error + 'b) \<Rightarrow> error + 'b" where
  "bindE (Inl e) f = Inl e"
| "bindE (Inr x) f = f x"

text \<open>Truthiness, as \<open>if (v)\<close>, \<open>!v\<close>, \<open>a && b\<close> and \<open>a || b\<close> read a value.\<close>

fun truthy :: "jsval \<Rightarrow> bool" where
  "truthy JUndefined = False"
| "truthy JNull = False"
| "truthy (JBool b) = b"
| "truthy (JNum n) = (n \<noteq> 0)"
| "truthy (JStr s) = (s \<noteq> [])"
| "truthy (JArr xs) = True"
| "truthy (JObj kvs) = True"

definition js_or :: "jsval \<Rightarrow> jsval \<Rightarrow> jsval" where
  "js_or a b = (if truthy a then a else b)"

subsection \<open>Conversion to a string\<close>

fun show_nat :: "nat \<Rightarrow> string" where
  "show_nat n =
     (if n < 10 then [''0123456789'' ! n]
      else show_nat (n div 10) @ [''0123456789'' ! (n mod 10)])"

declare show_nat.simps [simp del]

definition show_int :: "int \<Rightarrow> string" where
  "show_int i = (if i < 0 then CHR ''-'' # show_nat (nat (- i)) else show_nat (nat i))"

text \<open>
  \<open>String(v)\<close>, as a template literal, string concatenation and a computed property key
  apply it. An array joins its elements with a comma, \<open>undefined\<close> and \<open>null\<close> elements
  printing as nothing. An object prints through the inherited \<open>toString\<close>; an own
  property of that name, which is data and cannot be called, leaves no way to convert it.
\<close>

fun to_string :: "jsval \<Rightarrow> error + string"
  and join_elems :: "jsval list \<Rightarrow> error + string" where
  "to_string JUndefined = Inr ''undefined''"
| "to_string JNull = Inr ''null''"
| "to_string (JBool b) = Inr (if b then ''true'' else ''false'')"
| "to_string (JNum n) = Inr (show_int n)"
| "to_string (JStr s) = Inr s"
| "to_string (JArr xs) = join_elems xs"
| "to_string (JObj kvs) =
     (if ''toString'' \<in> set (map fst kvs) then Inl TypeError else Inr ''[object Object]'')"
| "join_elems [] = Inr ''''"
| "join_elems (x # xs) =
     bindE (if x = JUndefined \<or> x = JNull then Inr '''' else to_string x) (\<lambda>s.
       if xs = [] then Inr s else bindE (join_elems xs) (\<lambda>t. Inr (s @ '','' @ t)))"

subsection \<open>Properties\<close>

text \<open>
  The names every object inherits from \<open>Object.prototype\<close>. Reading one of them from an
  object that has no own property of that name gives a built-in function (or the
  prototype itself): a value that is truthy and has none of the properties this code
  reads, which is how the empty object stands for it below. The methods of arrays,
  strings and numbers are not modelled.
\<close>

definition object_prototype_names :: "string list" where
  "object_prototype_names =
     [''constructor'', ''__defineGetter__'', ''__defineSetter__'', ''hasOwnProperty'',
      ''__lookupGetter__'', ''__lookupSetter__'', ''isPrototypeOf'',
      ''propertyIsEnumerable'', ''toString'', ''valueOf'', ''__proto__'',
      ''toLocaleString'']"

definition inherited :: "string \<Rightarrow> jsval" where
  "inherited k = (if k \<in> set object_prototype_names then JObj [] else JUndefined)"

definition index_of_key :: "nat \<Rightarrow> string \<Rightarrow> nat option" where
  "index_of_key n k = List.find (\<lambda>i. show_nat i = k) [0..<n]"

text \<open>\<open>v[k]\<close> on a value that is neither \<open>undefined\<close> nor \<open>null\<close>.\<close>

fun member_of :: "jsval \<Rightarrow> string \<Rightarrow> jsval" where
  "member_of (JObj kvs) k = (case map_of kvs k of Some v \<Rightarrow> v | None \<Rightarrow> inherited k)"
| "member_of (JArr xs) k =
     (if k = ''length'' then JNum (int (length xs))
      else case index_of_key (length xs) k of Some i \<Rightarrow> xs ! i | None \<Rightarrow> inherited k)"
| "member_of (JStr s) k =
     (if k = ''length'' then JNum (int (length s))
      else case index_of_key (length s) k of Some i \<Rightarrow> JStr [s ! i] | None \<Rightarrow> inherited k)"
| "member_of v k = inherited k"

text \<open>\<open>v.k\<close> and \<open>v[k]\<close>: reading a property of \<open>undefined\<close> or \<open>null\<close> throws.\<close>

fun get_prop :: "jsval \<Rightarrow> string \<Rightarrow> error + jsval" where
  "get_prop JUndefined k = Inl TypeError"
| "get_prop JNull k = Inl TypeError"
| "get_prop v k = Inr (member_of v k)"

definition obj_get :: "obj \<Rightarrow> string \<Rightarrow> jsval" where
  "obj_get kvs k = member_of (JObj kvs) k"

text \<open>\<open>delete v.k\<close>: removes an own property; throws on \<open>undefined\<close> and \<open>null\<close>.\<close>

fun delete_prop :: "jsval \<Rightarrow> string \<Rightarrow> error + jsval" where
  "delete_prop JUndefined k = Inl TypeError"
| "delete_prop JNull k = Inl TypeError"
| "delete_prop (JObj kvs) k = Inr (JObj (AList.delete k kvs))"
| "delete_prop v k = Inr v"

subsection \<open>The lodash functions the code calls\<close>

text \<open>\<open>_.pick(v, ks)\<close> for names \<open>ks\<close> that no array, string or prototype has: a new
  object with those of the properties that \<open>v\<close> has, in the order of \<open>ks\<close>.\<close>

fun pick :: "jsval \<Rightarrow> string list \<Rightarrow> obj" where
  "pick (JObj kvs) ks =
     concat (map (\<lambda>k. case map_of kvs k of Some v \<Rightarrow> [(k, v)] | None \<Rightarrow> []) ks)"
| "pick v ks = []"

text \<open>The enumerable properties \<open>_.omit\<close> copies: an array and a string give their
  indices.\<close>

fun enumerable_entries :: "jsval \<Rightarrow> obj" where
  "enumerable_entries (JObj kvs) = kvs"
| "enumerable_entries (JArr xs) = zip (map show_nat [0..<length xs]) xs"
| "enumerable_entries (JStr s) = zip (map show_nat [0..<length s]) (map (\<lambda>c. JStr [c]) s)"
| "enumerable_entries v = []"

definition omit :: "jsval \<Rightarrow> string list \<Rightarrow> obj" where
  "omit v ks = filter (\<lambda>kv. fst kv \<notin> set ks) (enumerable_entries v)"

text \<open>\<open>_.isEmpty\<close>: a string or an array of length 0, an object with no own enumerable
  property, and every other value.\<close>

fun isEmpty :: "jsval \<Rightarrow> bool" where
  "isEmpty (JStr s) = (s = [])"
| "isEmpty (JArr xs) = (xs = [])"
| "isEmpty (JObj kvs) = (kvs = [])"
| "isEmpty v = True"

text \<open>
  \<open>r.includes(x)\<close>: membership in an array (the sought \<open>x\<close> is a string or a number, on
  which \<open>SameValueZero\<close> is equality), a substring test on a string, and a
  \<open>TypeError\<close> on every other value, which has no such method.
\<close>

fun is_substring :: "string \<Rightarrow> string \<Rightarrow> bool" where
  "is_substring t [] = (t = [])"
| "is_substring t (c # s) = (take (length t) (c # s) = t \<or> is_substring t s)"

fun js_includes :: "jsval \<Rightarrow> jsval \<Rightarrow> error + bool" where
  "js_includes (JArr xs) x = Inr (x \<in> set xs)"
| "js_includes (JStr s) x = bindE (to_string x) (\<lambda>t. Inr (is_substring t s))"
| "js_includes r x = Inl TypeError"

section \<open>ParameterProjector\<close>

text \<open>
  \<^verbatim>\<open>_messageDescriptionWithExample(schema)\<close>: the argument is the Parameter Object being
  built, returned updated.
\<close>

definition messageDescriptionWithExample :: "obj \<Rightarrow> error + obj" where
  "messageDescriptionWithExample schema =
     (let schema1 =
            (if \<not> truthy (obj_get schema ''description'')
             then AList.update ''description'' (JStr '''') schema else schema)
      in if truthy (obj_get schema1 ''example'')
         then bindE (to_string (obj_get schema1 ''description'')) (\<lambda>d.
              bindE (to_string (obj_get schema1 ''example'')) (\<lambda>ex.
                Inr (AList.update ''description''
                       (JStr (d @ '' (Example: '' @ ex @ '')'')) schema1)))
         else Inr schema1)"

text \<open>
  \<^verbatim>\<open>_convertJsonSchemaToParamObj(jsonSchema, fieldName)\<close>. The field name is the key
  \<open>_.forEach\<close> passes (a string for an object) or a name taken from the path.
\<close>

definition convertJsonSchemaToParamObj :: "jsval \<Rightarrow> jsval \<Rightarrow> error + obj" where
  "convertJsonSchemaToParamObj jsonSchema fieldName =
     bindE (get_prop jsonSchema ''properties'') (\<lambda>properties.
     bindE (to_string fieldName) (\<lambda>key.
     bindE (get_prop properties key) (\<lambda>schema.
       let paramObj0 = pick schema [''description'', ''examples''];
           paramObj1 = AList.update ''name'' fieldName paramObj0;
           required = member_of jsonSchema ''required''
       in bindE (if truthy required then js_includes required fieldName else Inr False) (\<lambda>req.
            let paramObj2 =
                  (if req then AList.update ''required'' (JBool True) paramObj1 else paramObj1);
                examples = obj_get paramObj2 ''examples'';
                paramObj3 =
                  (if \<not> isEmpty examples
                   then AList.delete ''examples''
                          (AList.update ''example'' (member_of examples ''0'') paramObj2)
                   else paramObj2);
                paramObj4 =
                  AList.update ''schema'' (JObj (omit schema [''description'', ''example''])) paramObj3
            in bindE (get_prop schema ''example'') (\<lambda>ex.
                 messageDescriptionWithExample (AList.update ''example'' ex paramObj4))))))"

section \<open>BinaryDetector\<close>

text \<open>
  The collections \<open>_.forEach\<close> and \<open>_.some\<close> walk, as (key, value) pairs: the elements of
  an array or a string under their indices, the own properties of an object (an object
  with a valid \<open>length\<close> is walked as an array), nothing for any other value.
\<close>

definition array_like_length :: "obj \<Rightarrow> nat option" where
  "array_like_length kvs =
     (case map_of kvs ''length'' of
        Some (JNum n) \<Rightarrow> if 0 \<le> n \<and> n \<le> 9007199254740991 then Some (nat n) else None
      | _ \<Rightarrow> None)"

fun entries_of :: "jsval \<Rightarrow> (jsval \<times> jsval) list" where
  "entries_of (JArr xs) = zip (map (\<lambda>i. JNum (int i)) [0..<length xs]) xs"
| "entries_of (JStr s) = zip (map (\<lambda>i. JNum (int i)) [0..<length s]) (map (\<lambda>c. JStr [c]) s)"
| "entries_of (JObj kvs) =
     (case array_like_length kvs of
        Some n \<Rightarrow> map (\<lambda>i. (JNum (int i), member_of (JObj kvs) (show_nat i))) [0..<n]
      | None \<Rightarrow> map (\<lambda>kv. (JStr (fst kv), snd kv)) kvs)"
| "entries_of v = []"

text \<open>\<open>_.some\<close> stops at the first element the predicate accepts; a predicate that throws
  ends the walk with its error.\<close>

fun lodash_some :: "('a \<Rightarrow> error + bool) \<Rightarrow> 'a list \<Rightarrow> error + bool" where
  "lodash_some p [] = Inr False"
| "lodash_some p (x # xs) = bindE (p x) (\<lambda>b. if b then Inr True else lodash_some p xs)"

text \<open>The predicate \<^verbatim>\<open>containsBinaryField\<close> gives \<open>_.some\<close>.\<close>

definition isBinaryFieldDefn :: "jsval \<Rightarrow> error + bool" where
  "isBinaryFieldDefn fieldDefn =
     bindE (get_prop fieldDefn ''type'') (\<lambda>ty.
       if ty = JStr ''array''
       then bindE (get_prop (member_of fieldDefn ''items'') ''format'') (\<lambda>f. Inr (f = JStr ''binary''))
       else Inr (member_of fieldDefn ''format'' = JStr ''binary''))"

text \<open>The first value of \<open>anyBinaryField\<close>: \<^verbatim>\<open>_.some(schema.properties, ...)\<close>.\<close>

definition anyBinaryField :: "jsval \<Rightarrow> error + bool" where
  "anyBinaryField schema =
     bindE (get_prop schema ''properties'') (\<lambda>properties.
       lodash_some isBinaryFieldDefn (map snd (entries_of properties)))"

text \<open>\<open>s.replace(pat, rep)\<close> with a string pattern: the first occurrence only.\<close>

fun replace_first :: "string \<Rightarrow> string \<Rightarrow> string \<Rightarrow> string" where
  "replace_first pat rep [] = (if pat = [] then rep else [])"
| "replace_first pat rep (c # s) =
     (if take (length pat) (c # s) = pat then rep @ drop (length pat) (c # s)
      else c # replace_first pat rep s)"

text \<open>\<^verbatim>\<open>schema.$ref.replace("#/components/schemas/", "")\<close>, on a truthy \<open>$ref\<close>: only a
  string has the method.\<close>

fun sharedSchemaName :: "jsval \<Rightarrow> error + string" where
  "sharedSchemaName (JStr r) = Inr (replace_first ''#/components/schemas/'' [] r)"
| "sharedSchemaName v = Inl TypeError"

text \<open>
  \<^verbatim>\<open>containsBinaryField(schema, sharedSchemas)\<close>. The function calls itself, so it is
  defined as a partial function: \<open>None\<close> is a call that does not return. The recursive
  call passes one argument, so its \<open>sharedSchemas\<close> is \<open>undefined\<close>.
\<close>

partial_function (option) containsBinaryField :: "jsval \<Rightarrow> jsval \<Rightarrow> (error + bool) option" where
  "containsBinaryField schema sharedSchemas =
     (case anyBinaryField schema of
        Inl e \<Rightarrow> Some (Inl e)
      | Inr any \<Rightarrow>
          if \<not> any \<and> truthy (member_of schema ''$ref'')
          then (case sharedSchemaName (member_of schema ''$ref'') of
                  Inl e \<Rightarrow> Some (Inl e)
                | Inr name \<Rightarrow>
                    (case get_prop sharedSchemas name of
                       Inl e \<Rightarrow> Some (Inl e)
                     | Inr target \<Rightarrow> containsBinaryField target JUndefined))
          else Some (Inr any))"

declare containsBinaryField.simps [code]

section \<open>Results of the effectful functions\<close>

text \<open>
  A call of the functions below returns a value, throws, or (as far as its definition
  says) does not return: \<open>Some (Inr x)\<close>, \<open>Some (Inl e)\<close> and \<open>None\<close>.
\<close>

type_synonym 'a res = "(error + 'a) option"

definition ret :: "'a \<Rightarrow> 'a res" where
  "ret x = Some (Inr x)"

definition lift :: "error + 'a \<Rightarrow> 'a res" where
  "lift r = Some r"

fun bindR :: "'a res \<Rightarrow> ('a \<Rightarrow> 'b res) \<Rightarrow> 'b res" where
  "bindR None f = None"
| "bindR (Some (Inl e)) f = Some (Inl e)"
| "bindR (Some (Inr x)) f = f x"

section \<open>The data model\<close>

text \<open>
  A validator is a schema of the validation library, of a type \<open>'v\<close> the core never looks
  into. The library is used through three operations, which the functions below take as
  arguments:
  \<^item> \<open>joi2json validator sharedSchemas\<close>, the call \<^verbatim>\<open>joi2json(validator, "open-api", sharedSchemas)\<close>:
    it returns the converted schema (a fresh object) and records shared definitions in
    the store it is given, so the model returns the store as the call leaves it;
  \<^item> \<open>terms_keys validator\<close>, the elements of \<^verbatim>\<open>$_terms.keys\<close> of the validator, none when it
    has no such list; an element is the value the callback destructures, an object with
    a \<open>key\<close> and a \<open>schema\<close>, of which the code reads \<open>_flags\<close>;
  \<^item> \<open>extract_key validator key\<close>, the call \<^verbatim>\<open>validator.extract(key)\<close>, which returns a
    validator or throws.
\<close>

type_synonym 'v converter = "'v \<Rightarrow> jsval \<Rightarrow> (jsval \<times> jsval) res"

text \<open>
  The inputs are typed as the specification types them. A member that holds any value
  is a \<open>jsval\<close>, \<open>undefined\<close> when it is absent; an optional validator or string is an
  \<open>option\<close>. \<open>validators\<close> is absent or an object read at the position keys, each of which
  holds a validator or nothing.
\<close>

text \<open>A declared response example \<^verbatim>\<open>{ code, schema?, mediaType?, description? }\<close>.\<close>

record 'v responseExample =
  ex_code :: jsval
  ex_schema :: "'v option"
  ex_mediaType :: jsval
  ex_description :: jsval

text \<open>An entry the first loop of \<^verbatim>\<open>convert\<close> pushes onto a route definition.\<close>

record 'v sideParameter =
  sp_in :: string
  sp_name :: jsval
  sp_schema :: 'v
  sp_required :: bool

text \<open>
  A route definition. Its \<open>parameters\<close> member, absent in a fresh input, is the side
  channel: \<open>rd_parameters\<close> is the reference to the array it holds, since
  \<^verbatim>\<open>convert\<close> pushes onto that array in place.
\<close>

record 'v routeDef =
  rd_method :: string
  rd_path :: string
  rd_summary :: jsval
  rd_description :: jsval
  rd_security :: jsval
  rd_deprecated :: jsval
  rd_validators :: "(string \<Rightarrow> 'v option) option"
  rd_responseExamples :: "'v responseExample list"
  rd_parameters :: "nat option"

text \<open>A module: the routes under one base path, as the route definitions themselves
  (\<open>'r\<close> is \<open>'v routeDef\<close>) or as references to them (\<open>'r\<close> is \<open>nat\<close>).\<close>

record 'r routeModule =
  rm_basePath :: string
  rm_name :: "string option"
  rm_description :: "string option"
  rm_routes :: "'r list"

text \<open>A Tag Object \<^verbatim>\<open>{ name, description }\<close>.\<close>

record tagObject =
  tg_name :: string
  tg_description :: string

text \<open>
  The Route Object (\<open>swaggerReq\<close>, \<open>route\<close>, and the template \<open>routeEntity\<close> it is cloned
  from). \<open>ro_responses\<close> is read by key only: the order of its entries is not that of
  JavaScript, which lists numeric keys first.
\<close>

record routeObject =
  ro_tags :: "string list"
  ro_summary :: jsval
  ro_description :: jsval
  ro_security :: jsval
  ro_deprecated :: jsval
  ro_parameters :: "jsval list"
  ro_requestBody :: jsval
  ro_responses :: "(string \<times> jsval) list"
  ro_other :: obj

text \<open>The document; \<open>doc_schemas\<close> is \<^verbatim>\<open>docEntity.components.schemas\<close>. The keys of
  \<open>doc_paths\<close> are path templates and methods, taken not to be names that every object
  inherits (a template that starts with \<open>/\<close> is none).\<close>

record docEntity =
  doc_tags :: "tagObject list"
  doc_paths :: "(string \<times> (string \<times> routeObject) list) list"
  doc_schemas :: jsval
  doc_other :: obj

text \<open>\<^verbatim>\<open>validators ? validators[position] : null\<close>, and \<^verbatim>\<open>validators && validators.body\<close>.\<close>

definition validatorAt :: "(string \<Rightarrow> 'v option) option \<Rightarrow> string \<Rightarrow> 'v option" where
  "validatorAt validators position =
     (case validators of None \<Rightarrow> None | Some vs \<Rightarrow> vs position)"

text \<open>The call of the converter, followed by \<^verbatim>\<open>delete schema.schemas\<close>.\<close>

definition convertSchema :: "'v converter \<Rightarrow> 'v \<Rightarrow> jsval \<Rightarrow> (jsval \<times> jsval) res" where
  "convertSchema joi2json validator sharedSchemas =
     bindR (joi2json validator sharedSchemas) (\<lambda>(schema, sharedSchemas').
     bindR (lift (delete_prop schema ''schemas'')) (\<lambda>schema'.
       ret (schema', sharedSchemas')))"

section \<open>Route parameters\<close>

text \<open>The \<open>in\<close> that \<^verbatim>\<open>addRouteParameters\<close> gives the parameters of a position.\<close>

definition position_in :: "string \<Rightarrow> string" where
  "position_in position =
     (if position = ''queryStringParameters'' then ''query''
      else if position = ''pathParameters'' then ''path''
      else position)"

text \<open>The body of the \<open>_.forEach\<close> of \<^verbatim>\<open>addRouteParameters\<close>, over the keys of
  \<open>joiJsonSchema.properties\<close>; \<open>parameters\<close> is \<open>route.parameters\<close>.\<close>

fun pushRouteParameters :: "jsval \<Rightarrow> string \<Rightarrow> jsval list \<Rightarrow> jsval list \<Rightarrow> error + jsval list" where
  "pushRouteParameters joiJsonSchema position [] parameters = Inr parameters"
| "pushRouteParameters joiJsonSchema position (field # rest) parameters =
     bindE (convertJsonSchemaToParamObj joiJsonSchema field) (\<lambda>paramObj.
       pushRouteParameters joiJsonSchema position rest
         (parameters @ [JObj (AList.update ''in'' (JStr (position_in position)) paramObj)]))"

text \<open>The keys that \<open>_.forEach\<close> passes, in its order.\<close>

definition fieldNames :: "jsval \<Rightarrow> jsval list" where
  "fieldNames joiJsonSchema = map fst (entries_of (member_of joiJsonSchema ''properties''))"

definition addRouteParameters ::
  "'v converter \<Rightarrow> jsval \<Rightarrow> routeObject \<Rightarrow> (string \<Rightarrow> 'v option) option \<Rightarrow> string
    \<Rightarrow> (jsval \<times> routeObject) res" where
  "addRouteParameters joi2json sharedSchemas route validators position =
     (case validatorAt validators position of
        None \<Rightarrow> ret (sharedSchemas, route)
      | Some validator \<Rightarrow>
          bindR (convertSchema joi2json validator sharedSchemas) (\<lambda>(joiJsonSchema, sharedSchemas').
          bindR (lift (pushRouteParameters joiJsonSchema position (fieldNames joiJsonSchema)
                         (ro_parameters route))) (\<lambda>parameters.
            ret (sharedSchemas', route\<lparr>ro_parameters := parameters\<rparr>))))"

text \<open>The body of the \<open>_.forEach\<close> of \<^verbatim>\<open>addRequestPathParams\<close>; \<open>pathParamSchema\<close> is
  \<open>undefined\<close> when there is no \<open>path\<close> validator.\<close>

fun pushPathParams :: "jsval \<Rightarrow> string list \<Rightarrow> jsval list \<Rightarrow> error + jsval list" where
  "pushPathParams pathParamSchema [] parameters = Inr parameters"
| "pushPathParams pathParamSchema (param # params) parameters =
     bindE (if truthy pathParamSchema
            then convertJsonSchemaToParamObj pathParamSchema (JStr param)
            else Inr [(''name'', JStr param), (''required'', JBool True),
                      (''schema'', JObj [(''type'', JStr ''string'')])]) (\<lambda>schema.
       let schema1 = AList.update ''in'' (JStr ''path'') schema;
           schema2 = (if \<not> truthy (obj_get schema1 ''description'')
                      then AList.update ''description'' (JStr []) schema1 else schema1)
       in pushPathParams pathParamSchema params (parameters @ [JObj schema2]))"

definition addRequestPathParams ::
  "'v converter \<Rightarrow> jsval \<Rightarrow> routeObject \<Rightarrow> string list \<Rightarrow> (string \<Rightarrow> 'v option) option
    \<Rightarrow> (jsval \<times> routeObject) res" where
  "addRequestPathParams joi2json sharedSchemas route pathParams validators =
     bindR (case validatorAt validators ''path'' of
              None \<Rightarrow> ret (JUndefined, sharedSchemas)
            | Some validator \<Rightarrow> convertSchema joi2json validator sharedSchemas)
       (\<lambda>(pathParamSchema, sharedSchemas').
     bindR (lift (pushPathParams pathParamSchema pathParams (ro_parameters route))) (\<lambda>parameters.
       ret (sharedSchemas', route\<lparr>ro_parameters := parameters\<rparr>)))"

section \<open>RequestBodyBuilder\<close>

definition addRequestBodyParams ::
  "'v converter \<Rightarrow> jsval \<Rightarrow> routeObject \<Rightarrow> (string \<Rightarrow> 'v option) option
    \<Rightarrow> (jsval \<times> routeObject) res" where
  "addRequestBodyParams joi2json sharedSchemas swaggerReq validators =
     (case validatorAt validators ''body'' of
        None \<Rightarrow> ret (sharedSchemas, swaggerReq)
      | Some body \<Rightarrow>
          bindR (convertSchema joi2json body sharedSchemas) (\<lambda>(schema, sharedSchemas').
          bindR (containsBinaryField schema sharedSchemas') (\<lambda>binary.
            let contentType = (if binary then ''multipart/form-data'' else ''application/json'')
            in ret (sharedSchemas',
                    swaggerReq\<lparr>ro_requestBody :=
                      JObj [(''content'', JObj [(contentType, JObj [(''schema'', schema)])])]\<rparr>))))"

section \<open>ResponseExampleBuilder\<close>

text \<open>The body of the \<open>_.forEach\<close> of \<^verbatim>\<open>addResponseExample\<close>, for one example.\<close>

definition addOneResponseExample ::
  "'v converter \<Rightarrow> jsval \<Rightarrow> routeObject \<Rightarrow> 'v responseExample \<Rightarrow> (jsval \<times> routeObject) res" where
  "addOneResponseExample joi2json sharedSchemas route example =
     (case ex_schema example of
        None \<Rightarrow> ret (sharedSchemas, route)
      | Some validator \<Rightarrow>
          bindR (convertSchema joi2json validator sharedSchemas) (\<lambda>(schema, sharedSchemas').
          bindR (lift (to_string (js_or (ex_mediaType example) (JStr ''application/json'')))) (\<lambda>mediaType.
          bindR (lift (to_string (ex_code example))) (\<lambda>code.
            ret (sharedSchemas',
                 route\<lparr>ro_responses :=
                   AList.update code
                     (JObj [(''description'', js_or (ex_description example) (JStr ''Normal Response'')),
                            (''content'', JObj [(mediaType, JObj [(''schema'', schema)])])])
                     (ro_responses route)\<rparr>)))))"

fun addResponseExample ::
  "'v converter \<Rightarrow> jsval \<Rightarrow> 'v responseExample list \<Rightarrow> routeObject \<Rightarrow> (jsval \<times> routeObject) res" where
  "addResponseExample joi2json sharedSchemas [] route = ret (sharedSchemas, route)"
| "addResponseExample joi2json sharedSchemas (example # examples) route =
     bindR (addOneResponseExample joi2json sharedSchemas route example) (\<lambda>(sharedSchemas', route').
       addResponseExample joi2json sharedSchemas' examples route')"

section \<open>PathTemplater\<close>

text \<open>\<open>s.split(sep)\<close> and \<open>xs.join(sep)\<close> on a one-character separator.\<close>

fun split_on :: "char \<Rightarrow> string \<Rightarrow> string list" where
  "split_on sep [] = [[]]"
| "split_on sep (c # s) =
     (if c = sep then [] # split_on sep s
      else (case split_on sep s of [] \<Rightarrow> [[c]] | w # ws \<Rightarrow> (c # w) # ws))"

fun join :: "string \<Rightarrow> string list \<Rightarrow> string" where
  "join sep [] = []"
| "join sep [w] = w"
| "join sep (w # v # ws) = w @ sep @ join sep (v # ws)"

text \<open>\<^verbatim>\<open>component.indexOf(":") === 0\<close>\<close>

fun marked :: "string \<Rightarrow> bool" where
  "marked [] = False"
| "marked (c # s) = (c = CHR '':'')"

text \<open>
  The callback of \<^verbatim>\<open>.map\<close> in \<^verbatim>\<open>buildSwaggerRequest\<close> pushes onto \<open>pathParams\<close> while it
  maps, so the walk over the components carries \<open>pathParams\<close> along.
\<close>

fun mapComponents :: "string list \<Rightarrow> string list \<Rightarrow> string list \<times> string list" where
  "mapComponents pathParams [] = (pathParams, [])"
| "mapComponents pathParams (component # components) =
     (if marked component
      then (let (pathParams', mapped) = mapComponents (pathParams @ [drop 1 component]) components
            in (pathParams', (''{'' @ drop 1 component @ ''}'') # mapped))
      else (let (pathParams', mapped) = mapComponents pathParams components
            in (pathParams', component # mapped)))"

definition pathTemplate :: "string \<Rightarrow> string \<Rightarrow> string \<times> string list" where
  "pathTemplate basePath path =
     (let (pathParams, pathComponents) = mapComponents [] (split_on CHR ''/'' (basePath @ path))
      in (join ''/'' pathComponents, pathParams))"

section \<open>DocumentAssembler\<close>

text \<open>
  \<^verbatim>\<open>buildSwaggerRequest\<close>. The code stores \<open>swaggerReq\<close> under its path and method first and
  fills the same object in afterwards; the model stores it once it is filled in. When a
  step throws, \<^verbatim>\<open>convert\<close> throws, and no document is returned.
\<close>

definition buildSwaggerRequest ::
  "'v converter \<Rightarrow> docEntity \<Rightarrow> routeObject \<Rightarrow> string \<Rightarrow> string \<Rightarrow> 'v routeDef \<Rightarrow> docEntity res" where
  "buildSwaggerRequest joi2json docEntity routeEntity tag basePath routeDef =
     (let (pathString, pathParams) = pathTemplate basePath (rd_path routeDef);
          routePath = (case map_of (doc_paths docEntity) pathString of Some p \<Rightarrow> p | None \<Rightarrow> []);
          swaggerReq = routeEntity
            \<lparr>ro_tags := ro_tags routeEntity @ [tag],
             ro_summary := rd_summary routeDef,
             ro_description := rd_description routeDef,
             ro_security := rd_security routeDef,
             ro_deprecated := (if truthy (rd_deprecated routeDef) then rd_deprecated routeDef
                               else ro_deprecated routeEntity)\<rparr>;
          validators = rd_validators routeDef
      in
      bindR (addRequestPathParams joi2json (doc_schemas docEntity) swaggerReq pathParams validators)
        (\<lambda>(s1, r1).
      bindR (addRouteParameters joi2json s1 r1 validators ''query'') (\<lambda>(s2, r2).
      bindR (addRouteParameters joi2json s2 r2 validators ''queryStringParameters'') (\<lambda>(s3, r3).
      bindR (addRouteParameters joi2json s3 r3 validators ''header'') (\<lambda>(s4, r4).
      bindR (addRouteParameters joi2json s4 r4 validators ''pathParameters'') (\<lambda>(s5, r5).
      bindR (addRequestBodyParams joi2json s5 r5 validators) (\<lambda>(s6, r6).
      bindR (addResponseExample joi2json s6 (rd_responseExamples routeDef) r6) (\<lambda>(s7, r7).
        ret (docEntity
              \<lparr>doc_paths :=
                 AList.update pathString (AList.update (rd_method routeDef) r7 routePath)
                   (doc_paths docEntity),
               doc_schemas := s7\<rparr>)))))))))"


section \<open>TagRegistrar\<close>

text \<open>\<^verbatim>\<open>moduleRoutes.basePath.substring(1).replace(/\//g, "-")\<close>\<close>

definition moduleId :: "'r routeModule \<Rightarrow> string" where
  "moduleId moduleRoutes =
     map (\<lambda>c. if c = CHR ''/'' then CHR ''-'' else c) (drop 1 (rm_basePath moduleRoutes))"

text \<open>\<open>a || b\<close> on an optional string: absent and empty are falsy.\<close>

definition or_string :: "string option \<Rightarrow> string \<Rightarrow> string" where
  "or_string a b = (case a of None \<Rightarrow> b | Some s \<Rightarrow> if s = [] then b else s)"

definition tagOf :: "'r routeModule \<Rightarrow> string" where
  "tagOf moduleRoutes = or_string (rm_name moduleRoutes) (moduleId moduleRoutes)"

definition tagObjectOf :: "'r routeModule \<Rightarrow> tagObject" where
  "tagObjectOf moduleRoutes =
     \<lparr>tg_name = tagOf moduleRoutes,
      tg_description = or_string (rm_description moduleRoutes) (moduleId moduleRoutes)\<rparr>"

text \<open>The \<open>forEach\<close> over \<open>moduleRoutes.routes\<close>.\<close>

fun buildRoutes ::
  "'v converter \<Rightarrow> routeObject \<Rightarrow> string \<Rightarrow> string \<Rightarrow> docEntity \<Rightarrow> 'v routeDef list \<Rightarrow> docEntity res" where
  "buildRoutes joi2json routeEntity tag basePath docEntity [] = ret docEntity"
| "buildRoutes joi2json routeEntity tag basePath docEntity (routeDef # routeDefs) =
     bindR (buildSwaggerRequest joi2json docEntity routeEntity tag basePath routeDef) (\<lambda>docEntity'.
       buildRoutes joi2json routeEntity tag basePath docEntity' routeDefs)"

definition buildModuleRoutes ::
  "'v converter \<Rightarrow> docEntity \<Rightarrow> routeObject \<Rightarrow> 'v routeDef routeModule \<Rightarrow> docEntity res" where
  "buildModuleRoutes joi2json docEntity routeEntity moduleRoutes =
     (let tag = tagOf moduleRoutes;
          tagObject = tagObjectOf moduleRoutes;
          found = List.find (\<lambda>t. tg_name t = tg_name tagObject) (doc_tags docEntity);
          docEntity1 = (if found = None
                        then docEntity\<lparr>doc_tags := doc_tags docEntity @ [tagObject]\<rparr>
                        else docEntity)
      in buildRoutes joi2json routeEntity tag (rm_basePath moduleRoutes) docEntity1
           (rm_routes moduleRoutes))"

section \<open>convert\<close>

text \<open>The skeletons: the members a caller may override, each optional. A member that
  is given replaces the built-in one whole (\<open>_.assign\<close> is shallow); \<open>sk_schemas\<close> is the
  \<open>schemas\<close> of the \<open>components\<close> a document skeleton gives.\<close>

record docSkeleton =
  sk_tags :: "tagObject list option"
  sk_paths :: "(string \<times> (string \<times> routeObject) list) list option"
  sk_schemas :: "jsval option"
  sk_other :: obj

record routeSkeleton =
  rs_tags :: "string list option"
  rs_summary :: "jsval option"
  rs_description :: "jsval option"
  rs_security :: "jsval option"
  rs_deprecated :: "jsval option"
  rs_parameters :: "jsval list option"
  rs_requestBody :: "jsval option"
  rs_responses :: "(string \<times> jsval) list option"
  rs_other :: obj

text \<open>\<open>_.assign\<close> on the members the records do not name.\<close>

definition assign :: "obj \<Rightarrow> obj \<Rightarrow> obj" where
  "assign target source = foldl (\<lambda>acc kv. AList.update (fst kv) (snd kv) acc) target source"

definition or_default :: "'a option \<Rightarrow> 'a \<Rightarrow> 'a" where
  "or_default a b = (case a of None \<Rightarrow> b | Some x \<Rightarrow> x)"

definition DOC_ROOT_TEMPLATE :: docEntity where
  "DOC_ROOT_TEMPLATE =
     \<lparr>doc_tags = [],
      doc_paths = [],
      doc_schemas =
        JObj [(''Error'',
               JObj [(''type'', JStr ''object''),
                     (''required'', JArr [JStr ''code'', JStr ''err'']),
                     (''properties'',
                      JObj [(''code'', JObj [(''type'', JStr ''string'')]),
                            (''err'', JObj [(''type'', JStr ''string'')])])])],
      doc_other =
        [(''openapi'', JStr ''3.0.1''),
         (''info'', JObj [(''description'', JStr ''API Docs''), (''version'', JStr ''1.0.0''),
                          (''title'', JStr ''API Docs'')]),
         (''servers'', JArr [JObj [(''url'', JStr ''http://localhost/'')]])]\<rparr>"

definition ROUTE_DEF_TEMPLATE :: routeObject where
  "ROUTE_DEF_TEMPLATE =
     \<lparr>ro_tags = [],
      ro_summary = JStr [],
      ro_description = JStr [],
      ro_security = JUndefined,
      ro_deprecated = JUndefined,
      ro_parameters = [],
      ro_requestBody = JUndefined,
      ro_responses =
        [(''500'',
          JObj [(''description'', JStr ''When Server takes a nap.''),
                (''content'',
                 JObj [(''application/json'',
                        JObj [(''schema'', JObj [(''$ref'', JStr ''#/components/schemas/Error'')])])])])],
      ro_other = []\<rparr>"

definition assignDoc :: "docEntity \<Rightarrow> docSkeleton \<Rightarrow> docEntity" where
  "assignDoc template docSkeleton =
     \<lparr>doc_tags = or_default (sk_tags docSkeleton) (doc_tags template),
      doc_paths = or_default (sk_paths docSkeleton) (doc_paths template),
      doc_schemas = or_default (sk_schemas docSkeleton) (doc_schemas template),
      doc_other = assign (doc_other template) (sk_other docSkeleton)\<rparr>"

definition assignRoute :: "routeObject \<Rightarrow> routeSkeleton \<Rightarrow> routeObject" where
  "assignRoute template routeSkeleton =
     \<lparr>ro_tags = or_default (rs_tags routeSkeleton) (ro_tags template),
      ro_summary = or_default (rs_summary routeSkeleton) (ro_summary template),
      ro_description = or_default (rs_description routeSkeleton) (ro_description template),
      ro_security = or_default (rs_security routeSkeleton) (ro_security template),
      ro_deprecated = or_default (rs_deprecated routeSkeleton) (ro_deprecated template),
      ro_parameters = or_default (rs_parameters routeSkeleton) (ro_parameters template),
      ro_requestBody = or_default (rs_requestBody routeSkeleton) (ro_requestBody template),
      ro_responses = or_default (rs_responses routeSkeleton) (ro_responses template),
      ro_other = assign (ro_other template) (rs_other routeSkeleton)\<rparr>"

text \<open>
  The first loop of \<^verbatim>\<open>convert\<close> changes its input in place: it assigns the \<open>parameters\<close>
  member of route definitions and pushes onto the arrays they hold. Two modules can hold
  the same route definition and two route definitions the same array, so the route
  definitions and the arrays live in a store, under references: \<open>st_routes\<close> and
  \<open>st_arrays\<close> give what a reference points to, and the references from \<open>st_fresh\<close> on are
  unused, which is where a new array is put.
\<close>

record 'v routeStore =
  st_routes :: "nat \<Rightarrow> 'v routeDef"
  st_arrays :: "nat \<Rightarrow> 'v sideParameter list"
  st_fresh :: nat

text \<open>
  A function of the first loop returns the store as it leaves it, or the error it throws
  together with the store as the throw leaves it.
\<close>

type_synonym 'v stepped = "(error \<times> 'v routeStore) + 'v routeStore"

text \<open>
  The callback of the inner \<open>_.each\<close> over \<^verbatim>\<open>$_terms.keys\<close>, for the array \<open>p\<close>. Its parameter
  \<^verbatim>\<open>{ key, schema: { _flags: presence } }\<close> is destructured first, which throws on an
  element or a \<open>schema\<close> that is \<open>undefined\<close> or \<open>null\<close>; \<open>presence\<close> is so bound to
  \<open>schema._flags\<close>, and that is what the code compares with \<^verbatim>\<open>"required"\<close>. The entry is
  labelled \<^verbatim>\<open>in: "path"\<close> in both loops.
\<close>

definition newEntry :: "('v \<Rightarrow> jsval \<Rightarrow> error + 'v) \<Rightarrow> 'v \<Rightarrow> jsval \<Rightarrow> error + 'v sideParameter" where
  "newEntry extract_key validator element =
     bindE (get_prop element ''key'') (\<lambda>key.
     bindE (get_prop (member_of element ''schema'') ''_flags'') (\<lambda>presence.
     bindE (extract_key validator key) (\<lambda>schema.
       Inr \<lparr>sp_in = ''path'', sp_name = key, sp_schema = schema,
            sp_required = (presence = JStr ''required'')\<rparr>)))"

definition pushEntry ::
  "('v \<Rightarrow> jsval \<Rightarrow> error + 'v) \<Rightarrow> 'v \<Rightarrow> nat \<Rightarrow> 'v routeStore \<Rightarrow> jsval \<Rightarrow> 'v stepped" where
  "pushEntry extract_key validator p s element =
     (case newEntry extract_key validator element of
        Inl e \<Rightarrow> Inl (e, s)
      | Inr entry \<Rightarrow> Inr (s\<lparr>st_arrays := (st_arrays s)(p := st_arrays s p @ [entry])\<rparr>))"

fun pushEntries ::
  "('v \<Rightarrow> jsval \<Rightarrow> error + 'v) \<Rightarrow> 'v \<Rightarrow> nat \<Rightarrow> 'v routeStore \<Rightarrow> jsval list \<Rightarrow> 'v stepped" where
  "pushEntries extract_key validator p s [] = Inr s"
| "pushEntries extract_key validator p s (element # elements) =
     (case pushEntry extract_key validator p s element of
        Inl thrown \<Rightarrow> Inl thrown
      | Inr s' \<Rightarrow> pushEntries extract_key validator p s' elements)"

text \<open>\<^verbatim>\<open>if (validator) { _.each(_.get(validator, "$_terms.keys"), ...) }\<close>\<close>

definition pushIntrospected ::
  "('v \<Rightarrow> jsval list) \<Rightarrow> ('v \<Rightarrow> jsval \<Rightarrow> error + 'v) \<Rightarrow> 'v option \<Rightarrow> nat \<Rightarrow> 'v routeStore
    \<Rightarrow> 'v stepped" where
  "pushIntrospected terms_keys extract_key validator p s =
     (case validator of
        None \<Rightarrow> Inr s
      | Some v \<Rightarrow> pushEntries extract_key v p s (terms_keys v))"

text \<open>
  The body of the inner \<open>_.each\<close> over the routes of a module, for the route definition
  under the reference \<open>a\<close>: \<^verbatim>\<open>parameters = parameters || []\<close> keeps the array the route
  has or gives it a new, empty one; then come the keys of \<open>pathParameters\<close> and those of
  \<open>queryStringParameters\<close>.
\<close>

definition visitRoute ::
  "('v \<Rightarrow> jsval list) \<Rightarrow> ('v \<Rightarrow> jsval \<Rightarrow> error + 'v) \<Rightarrow> 'v routeStore \<Rightarrow> nat \<Rightarrow> 'v stepped" where
  "visitRoute terms_keys extract_key s a =
     (let route = st_routes s a;
          pathParameters = validatorAt (rd_validators route) ''pathParameters'';
          (p, s1) = (case rd_parameters route of
                       Some q \<Rightarrow> (q, s)
                     | None \<Rightarrow> (st_fresh s,
                                s\<lparr>st_arrays := (st_arrays s)(st_fresh s := []),
                                  st_fresh := Suc (st_fresh s)\<rparr>));
          s2 = s1\<lparr>st_routes := (st_routes s1)(a := route\<lparr>rd_parameters := Some p\<rparr>)\<rparr>
      in case pushIntrospected terms_keys extract_key pathParameters p s2 of
           Inl thrown \<Rightarrow> Inl thrown
         | Inr s3 \<Rightarrow>
             pushIntrospected terms_keys extract_key
               (validatorAt (rd_validators route) ''queryStringParameters'') p s3)"

text \<open>The two nested \<open>_.each\<close> of lines 272 to 309, over the references of the routes of
  the modules in their order; a throw ends the walk.\<close>

fun firstLoop ::
  "('v \<Rightarrow> jsval list) \<Rightarrow> ('v \<Rightarrow> jsval \<Rightarrow> error + 'v) \<Rightarrow> 'v routeStore \<Rightarrow> nat list \<Rightarrow> 'v stepped" where
  "firstLoop terms_keys extract_key s [] = Inr s"
| "firstLoop terms_keys extract_key s (a # rest) =
     (case visitRoute terms_keys extract_key s a of
        Inl thrown \<Rightarrow> Inl thrown
      | Inr s' \<Rightarrow> firstLoop terms_keys extract_key s' rest)"

text \<open>A module as the second loop reads it: its routes are what the store holds.\<close>

definition resolve :: "'v routeStore \<Rightarrow> nat routeModule \<Rightarrow> 'v routeDef routeModule" where
  "resolve s moduleRoutes =
     \<lparr>rm_basePath = rm_basePath moduleRoutes, rm_name = rm_name moduleRoutes,
      rm_description = rm_description moduleRoutes,
      rm_routes = map (st_routes s) (rm_routes moduleRoutes)\<rparr>"

text \<open>The \<open>_.forEach\<close> over \<open>allModuleRoutes\<close> that builds the document.\<close>

fun buildModules ::
  "'v converter \<Rightarrow> routeObject \<Rightarrow> docEntity \<Rightarrow> 'v routeDef routeModule list \<Rightarrow> docEntity res" where
  "buildModules joi2json routeEntity docEntity [] = ret docEntity"
| "buildModules joi2json routeEntity docEntity (moduleRoutes # rest) =
     bindR (buildModuleRoutes joi2json docEntity routeEntity moduleRoutes) (\<lambda>docEntity'.
       buildModules joi2json routeEntity docEntity' rest)"

text \<open>
  \<^verbatim>\<open>convert(allModuleRoutes, docSkeleton, routeSkeleton)\<close>, called with the store \<open>s\<close>. The
  first component of the result is the store as the call leaves it, the second what the
  call returns or throws: a throw of the first loop ends the call.
\<close>

definition convert ::
  "'v converter \<Rightarrow> ('v \<Rightarrow> jsval list) \<Rightarrow> ('v \<Rightarrow> jsval \<Rightarrow> error + 'v)
    \<Rightarrow> 'v routeStore \<Rightarrow> nat routeModule list \<Rightarrow> docSkeleton \<Rightarrow> routeSkeleton
    \<Rightarrow> 'v routeStore \<times> docEntity res" where
  "convert joi2json terms_keys extract_key s allModuleRoutes docSkeleton routeSkeleton =
     (let docEntity = assignDoc DOC_ROOT_TEMPLATE docSkeleton;
          routeEntity = assignRoute ROUTE_DEF_TEMPLATE routeSkeleton
      in case firstLoop terms_keys extract_key s (concat (map rm_routes allModuleRoutes)) of
           Inl (e, s') \<Rightarrow> (s', Some (Inl e))
         | Inr s' \<Rightarrow>
             (s', buildModules joi2json routeEntity docEntity (map (resolve s') allModuleRoutes)))"

section \<open>Notions the properties use\<close>

text \<open>A call that returns a value (it neither throws nor runs forever).\<close>

definition returns :: "'a res \<Rightarrow> bool" where
  "returns r = (case r of Some (Inr x) \<Rightarrow> True | _ \<Rightarrow> False)"

text \<open>
  PathTemplater as the specification words it: split the concatenation on \<open>/\<close>, rename
  every segment that begins with the marker to \<open>{name}\<close>, record the bare names from left
  to right, rejoin with \<open>/\<close>.
\<close>

definition spec_pathTemplate :: "string \<Rightarrow> string \<Rightarrow> string \<times> string list" where
  "spec_pathTemplate basePath path =
     (let segments = split_on CHR ''/'' (basePath @ path)
      in (join ''/'' (map (\<lambda>segment. if marked segment then ''{'' @ drop 1 segment @ ''}''
                                     else segment) segments),
          map (drop 1) (filter marked segments)))"

text \<open>A Parameter Object of the given name and location, and how many a list holds.\<close>

definition projected :: "string \<Rightarrow> jsval \<Rightarrow> jsval \<Rightarrow> bool" where
  "projected loc field parameter \<longleftrightarrow>
     member_of parameter ''name'' = field \<and> member_of parameter ''in'' = JStr loc"

definition count_param :: "jsval \<Rightarrow> string \<Rightarrow> jsval list \<Rightarrow> nat" where
  "count_param field loc parameters = length (filter (projected loc field) parameters)"

text \<open>The tag list after one registration: a tag whose name is taken is not added.\<close>

definition registerTag :: "tagObject list \<Rightarrow> tagObject \<Rightarrow> tagObject list" where
  "registerTag tags t = (if tg_name t \<in> tg_name ` set tags then tags else tags @ [t])"

text \<open>The tag list \<^verbatim>\<open>convert\<close> starts from: the skeleton's, or the built-in empty one.\<close>

definition initialTags :: "docSkeleton \<Rightarrow> tagObject list" where
  "initialTags docSkeleton = or_default (sk_tags docSkeleton) []"








text \<open>The default the specification words: \<open>a ?? b\<close> is \<open>b\<close> only for an \<open>a\<close> that is
  \<open>undefined\<close> or \<open>null\<close>.\<close>

definition nullish_or :: "jsval \<Rightarrow> jsval \<Rightarrow> jsval" where
  "nullish_or a b = (if a = JUndefined \<or> a = JNull then b else a)"

section \<open>Example inputs\<close>

text \<open>
  A validation library for the examples: a validator is its own converted schema,
  nothing is recorded in the store, the introspected keys are the names of the
  properties (each with the flags of a required key), and a key extracts its property.
  As that of Joi, the extraction takes its key for a path of names separated by dots:
  it throws when the validator has no property named as the part before the first dot.
\<close>

definition example_converter :: "jsval converter" where
  "example_converter validator sharedSchemas = ret (validator, sharedSchemas)"

definition example_terms_keys :: "jsval \<Rightarrow> jsval list" where
  "example_terms_keys validator =
     map (\<lambda>k. JObj [(''key'', k),
                     (''schema'', JObj [(''_flags'', JObj [(''presence'', JStr ''required'')])])])
         (fieldNames validator)"

fun example_extract_path :: "jsval \<Rightarrow> string list \<Rightarrow> error + jsval" where
  "example_extract_path validator [] = Inr validator"
| "example_extract_path validator (k # ks) =
     (case member_of (member_of validator ''properties'') k of
        JUndefined \<Rightarrow> Inl ConverterError
      | v \<Rightarrow> example_extract_path v ks)"

definition example_extract_key :: "jsval \<Rightarrow> jsval \<Rightarrow> error + jsval" where
  "example_extract_key validator key =
     (case key of
        JStr k \<Rightarrow> example_extract_path validator (split_on CHR ''.'' k)
      | _ \<Rightarrow> Inl ConverterError)"

definition emailSchema :: jsval where
  "emailSchema =
     JObj [(''properties'',
            JObj [(''email'', JObj [(''type'', JStr ''string''),
                                   (''examples'', JArr [JStr ''a@b.com''])])])]"

definition idSchema :: jsval where
  "idSchema =
     JObj [(''type'', JStr ''object''),
           (''properties'', JObj [(''id'', JObj [(''type'', JStr ''string'')])])]"

definition uploadSchema :: jsval where
  "uploadSchema =
     JObj [(''type'', JStr ''object''),
           (''properties'',
            JObj [(''files'',
                   JObj [(''type'', JStr ''array''),
                         (''items'', JObj [(''type'', JStr ''string''),
                                          (''format'', JStr ''binary'')])])])]"

text \<open>A store in which \<open>A\<close> refers to \<open>B\<close>, \<open>B\<close> to \<open>C\<close>, and \<open>C\<close> has a binary field; a store
  whose only schema refers to itself; and schemas that refer into them.\<close>

definition chainSchemas :: obj where
  "chainSchemas =
     [(''B'', JObj [(''$ref'', JStr ''#/components/schemas/C'')]),
      (''C'', JObj [(''properties'',
                     JObj [(''file'', JObj [(''type'', JStr ''string''),
                                           (''format'', JStr ''binary'')])])])]"

definition chainStore :: jsval where
  "chainStore = JObj chainSchemas"

definition refB :: jsval where
  "refB = JObj [(''$ref'', JStr ''#/components/schemas/B'')]"

definition refC :: jsval where
  "refC = JObj [(''$ref'', JStr ''#/components/schemas/C'')]"

text \<open>A schema whose only reference stands inside a property.\<close>

definition nestedRefC :: jsval where
  "nestedRefC =
     JObj [(''type'', JStr ''object''),
           (''properties'', JObj [(''upload'', JObj [(''$ref'', JStr ''#/components/schemas/C'')])])]"

definition refMissing :: jsval where
  "refMissing = JObj [(''$ref'', JStr ''#/components/schemas/Missing'')]"

definition cycleStore :: jsval where
  "cycleStore = JObj [(''Loop'', JObj [(''$ref'', JStr ''#/components/schemas/Loop'')])]"

definition refLoop :: jsval where
  "refLoop = JObj [(''$ref'', JStr ''#/components/schemas/Loop'')]"

definition exampleValidators :: "string \<Rightarrow> jsval option" where
  "exampleValidators position =
     (if position = ''query'' then Some idSchema
      else if position = ''queryStringParameters'' then Some idSchema
      else if position = ''body'' then Some uploadSchema
      else None)"

definition plainValidators :: "string \<Rightarrow> jsval option" where
  "plainValidators position = (if position = ''body'' then Some idSchema else None)"


definition firstExample :: "jsval responseExample" where
  "firstExample =
     \<lparr>ex_code = JNum 200, ex_schema = Some idSchema, ex_mediaType = JUndefined,
      ex_description = JStr ''First''\<rparr>"

definition secondExample :: "jsval responseExample" where
  "secondExample =
     \<lparr>ex_code = JStr ''200'', ex_schema = Some emailSchema, ex_mediaType = JStr ''text/plain'',
      ex_description = JUndefined\<rparr>"

definition bareExample :: "jsval responseExample" where
  "bareExample =
     \<lparr>ex_code = JNum 404, ex_schema = None, ex_mediaType = JUndefined,
      ex_description = JStr ''Missing''\<rparr>"

definition exampleRoute :: "jsval routeDef" where
  "exampleRoute =
     \<lparr>rd_method = ''get'', rd_path = ''/:id'', rd_summary = JStr ''Fetch'',
      rd_description = JUndefined, rd_security = JUndefined, rd_deprecated = JUndefined,
      rd_validators = Some exampleValidators,
      rd_responseExamples = [firstExample, bareExample],
      rd_parameters = None\<rparr>"

text \<open>A route with validators under \<open>pathParameters\<close> and \<open>queryStringParameters\<close>, and
  one whose \<open>pathParameters\<close> validator has a key with a dot in it.\<close>

definition keyedValidators :: "string \<Rightarrow> jsval option" where
  "keyedValidators position =
     (if position = ''pathParameters'' then Some idSchema
      else if position = ''queryStringParameters'' then Some emailSchema
      else None)"

definition keyedRoute :: "jsval routeDef" where
  "keyedRoute =
     \<lparr>rd_method = ''put'', rd_path = ''/:id'', rd_summary = JStr ''Change'',
      rd_description = JUndefined, rd_security = JUndefined, rd_deprecated = JUndefined,
      rd_validators = Some keyedValidators,
      rd_responseExamples = [],
      rd_parameters = None\<rparr>"

definition dottedSchema :: jsval where
  "dottedSchema =
     JObj [(''type'', JStr ''object''),
           (''properties'', JObj [(''id'', JObj [(''type'', JStr ''string'')]),
                                 (''a.b'', JObj [(''type'', JStr ''string'')])])]"

definition dottedValidators :: "string \<Rightarrow> jsval option" where
  "dottedValidators position =
     (if position = ''pathParameters'' then Some dottedSchema else None)"

definition dottedRoute :: "jsval routeDef" where
  "dottedRoute =
     \<lparr>rd_method = ''get'', rd_path = ''/:id'', rd_summary = JStr ''Dotted'',
      rd_description = JUndefined, rd_security = JUndefined, rd_deprecated = JUndefined,
      rd_validators = Some dottedValidators,
      rd_responseExamples = [],
      rd_parameters = None\<rparr>"

text \<open>
  A store with the example route under reference 0, the route with the dotted key under
  reference 2 and the route with the two validators under every other reference, none
  with an array yet. The first module holds the routes 0 and 1; the second, of the same
  base path, holds the route 1 too; the third holds the route 1 and then the route 2.
\<close>

definition exampleStore :: "jsval routeStore" where
  "exampleStore =
     \<lparr>st_routes = (\<lambda>a. if a = 0 then exampleRoute else if a = 2 then dottedRoute else keyedRoute),
      st_arrays = (\<lambda>p. []), st_fresh = 0\<rparr>"

definition usersModule :: "nat routeModule" where
  "usersModule =
     \<lparr>rm_basePath = ''/users'', rm_name = None, rm_description = Some ''Users'',
      rm_routes = [0, 1]\<rparr>"

definition usersAgain :: "nat routeModule" where
  "usersAgain =
     \<lparr>rm_basePath = ''/users'', rm_name = None, rm_description = Some ''Other'',
      rm_routes = [1]\<rparr>"

definition dottedModule :: "nat routeModule" where
  "dottedModule =
     \<lparr>rm_basePath = ''/dotted'', rm_name = None, rm_description = None,
      rm_routes = [1, 2]\<rparr>"

text \<open>A response example whose description and media type are given, and empty.\<close>

definition blankExample :: "jsval responseExample" where
  "blankExample =
     \<lparr>ex_code = JNum 200, ex_schema = Some idSchema, ex_mediaType = JStr [],
      ex_description = JStr []\<rparr>"

definition noDocSkeleton :: docSkeleton where
  "noDocSkeleton = \<lparr>sk_tags = None, sk_paths = None, sk_schemas = None, sk_other = []\<rparr>"

definition noRouteSkeleton :: routeSkeleton where
  "noRouteSkeleton =
     \<lparr>rs_tags = None, rs_summary = None, rs_description = None, rs_security = None,
      rs_deprecated = None, rs_parameters = None, rs_requestBody = None, rs_responses = None,
      rs_other = []\<rparr>"

section \<open>Basic facts\<close>

lemma returns_iff: "returns r \<longleftrightarrow> (\<exists>x. r = ret x)"
  by (auto simp: returns_def ret_def split: option.splits sum.splits)

lemma bindR_ret_iff: "bindR m f = ret y \<longleftrightarrow> (\<exists>x. m = ret x \<and> f x = ret y)"
  by (cases "(m, f)" rule: bindR.cases) (auto simp: ret_def)

lemma bindR_pair_ret_iff:
  "bindR m (\<lambda>(a, b). f a b) = ret y \<longleftrightarrow> (\<exists>a b. m = ret (a, b) \<and> f a b = ret y)"
  by (auto simp: bindR_ret_iff)

lemma bindR_ret [simp]: "bindR (ret x) f = f x"
  by (simp add: ret_def)

lemma lift_ret_iff [simp]: "lift r = ret x \<longleftrightarrow> r = Inr x"
  by (simp add: lift_def ret_def)

lemma ret_inject [simp]: "ret x = ret y \<longleftrightarrow> x = y"
  by (simp add: ret_def)

lemma bindE_Inr_iff: "bindE m f = Inr y \<longleftrightarrow> (\<exists>x. m = Inr x \<and> f x = Inr y)"
  by (cases m) auto

section \<open>ParameterProjector: the example of a parameter\<close>

lemma messageDescriptionWithExample_keeps:
  assumes "messageDescriptionWithExample p = Inr q" and "k \<noteq> ''description''"
  shows "map_of q k = map_of p k"
  using assms
  by (auto simp: messageDescriptionWithExample_def Let_def bindE_Inr_iff update_conv'
           split: if_splits)


lemma get_prop_Inr: "get_prop v k = Inr x \<Longrightarrow> x = member_of v k"
  by (cases v) auto

text \<open>
  Whatever the \<open>examples\<close> list of a field holds, the \<open>example\<close> of its Parameter Object
  is the field's direct \<open>example\<close>: the assignment of line 27 comes after the one that
  takes the first element of the list.
\<close>

lemma convertJsonSchemaToParamObj_example_is_direct:
  assumes "convertJsonSchemaToParamObj jsonSchema fieldName = Inr paramObj"
  shows "\<exists>properties key schema.
           get_prop jsonSchema ''properties'' = Inr properties \<and>
           to_string fieldName = Inr key \<and>
           get_prop properties key = Inr schema \<and>
           map_of paramObj ''example'' = Some (member_of schema ''example'')"
  using assms
  by (auto simp: convertJsonSchemaToParamObj_def Let_def bindE_Inr_iff update_conv' delete_conv'
           dest!: messageDescriptionWithExample_keeps[where k = "''example''"]
           dest: get_prop_Inr split: if_splits)

text \<open>
  C1 (the code departs from the claim). A field with \<^verbatim>\<open>examples: ["a@b.com"]\<close> and no
  \<open>example\<close> should become a Parameter Object with \<^verbatim>\<open>example: "a@b.com"\<close> and a
  description that ends with \<^verbatim>\<open>" (Example: a@b.com)"\<close>. The code returns it with \<open>example\<close>
  \<open>undefined\<close> and the empty description; only the list is dropped from it.
\<close>

theorem convertJsonSchemaToParamObj_examples_only:
  "convertJsonSchemaToParamObj emailSchema (JStr ''email'') =
     Inr [(''name'', JStr ''email''), (''example'', JUndefined),
          (''schema'', JObj [(''type'', JStr ''string''), (''examples'', JArr [JStr ''a@b.com''])]),
          (''description'', JStr [])]"
  by code_simp

theorem convertJsonSchemaToParamObj_examples_only_witness:
  "\<exists>paramObj.
     convertJsonSchemaToParamObj emailSchema (JStr ''email'') = Inr paramObj \<and>
     obj_get paramObj ''example'' = JUndefined \<and>
     obj_get paramObj ''description'' = JStr [] \<and>
     obj_get paramObj ''examples'' = JUndefined"
  using convertJsonSchemaToParamObj_examples_only
  by (simp add: obj_get_def inherited_def object_prototype_names_def)

section \<open>BinaryDetector: how far a reference is followed\<close>

lemma sharedSchemaName_error: "sharedSchemaName v = Inl e \<Longrightarrow> e = TypeError"
  by (cases v) auto

text \<open>With no store, a call makes no further call: the recursive call is of this kind.\<close>

lemma containsBinaryField_undefined_store:
  "containsBinaryField schema JUndefined =
     (case anyBinaryField schema of
        Inl e \<Rightarrow> Some (Inl e)
      | Inr any \<Rightarrow>
          if \<not> any \<and> truthy (member_of schema ''$ref'') then Some (Inl TypeError)
          else Some (Inr any))"
  by (subst containsBinaryField.simps) (auto split: sum.splits dest: sharedSchemaName_error)

lemma containsBinaryField_returns: "\<exists>r. containsBinaryField schema sharedSchemas = Some r"
  by (subst containsBinaryField.simps)
     (auto split: sum.splits simp: containsBinaryField_undefined_store)

text \<open>Binary is reported only for a binary field at the top level of the schema itself or
  of the schema its root-level \<open>$ref\<close> names.\<close>

lemma containsBinaryField_True:
  assumes "containsBinaryField schema sharedSchemas = ret True"
  shows "anyBinaryField schema = Inr True \<or>
         (\<exists>name target. sharedSchemaName (member_of schema ''$ref'') = Inr name \<and>
            get_prop sharedSchemas name = Inr target \<and> anyBinaryField target = Inr True)"
  using assms unfolding ret_def
  by (subst (asm) containsBinaryField.simps)
     (auto split: sum.splits if_splits simp: containsBinaryField_undefined_store)

text \<open>A schema with no root-level \<open>$ref\<close> is judged by its own top-level properties,
  whatever the store holds and whatever its properties refer to.\<close>

lemma containsBinaryField_no_ref:
  assumes "anyBinaryField schema = Inr any" and "\<not> truthy (member_of schema ''$ref'')"
  shows "containsBinaryField schema sharedSchemas = ret any"
  using assms unfolding ret_def by (subst containsBinaryField.simps) simp

text \<open>
  C2 (the code departs from the claim). For every converted body schema that has no
  binary top-level field and whose root-level \<open>$ref\<close> names a stored schema that again
  has no binary top-level field but a root-level \<open>$ref\<close> of its own, so that a binary
  field lies two hops away, BinaryDetector does not return \<open>false\<close>: it throws a
  TypeError, since the recursive call is made without the store and the second \<open>$ref\<close>
  is looked up in \<open>undefined\<close>. The rest of the claim holds: binary is reported only for
  a binary field at the top level of the schema itself or of the schema its root-level
  \<open>$ref\<close> names, so the resolution reaches one level at most; and a schema with no
  root-level \<open>$ref\<close> is judged by its own top-level fields, whatever the store holds: a
  \<open>$ref\<close> inside a property is not followed.
\<close>

theorem containsBinaryField_two_hops:
  "(anyBinaryField schema = Inr False \<and>
    member_of schema ''$ref'' = JStr ref1 \<and> ref1 \<noteq> [] \<and>
    get_prop sharedSchemas (replace_first ''#/components/schemas/'' [] ref1) = Inr hop1 \<and>
    anyBinaryField hop1 = Inr False \<and>
    member_of hop1 ''$ref'' = JStr ref2 \<and> ref2 \<noteq> [] \<longrightarrow>
    containsBinaryField schema sharedSchemas = Some (Inl TypeError)) \<and>
   (containsBinaryField schema sharedSchemas = ret True \<longrightarrow>
    anyBinaryField schema = Inr True \<or>
    (\<exists>name target.
       sharedSchemaName (member_of schema ''$ref'') = Inr name \<and>
       get_prop sharedSchemas name = Inr target \<and> anyBinaryField target = Inr True)) \<and>
   (anyBinaryField schema = Inr any \<and> \<not> truthy (member_of schema ''$ref'') \<longrightarrow>
    containsBinaryField schema sharedSchemas = ret any)"
proof (intro conjI impI)
  assume "anyBinaryField schema = Inr False \<and>
    member_of schema ''$ref'' = JStr ref1 \<and> ref1 \<noteq> [] \<and>
    get_prop sharedSchemas (replace_first ''#/components/schemas/'' [] ref1) = Inr hop1 \<and>
    anyBinaryField hop1 = Inr False \<and>
    member_of hop1 ''$ref'' = JStr ref2 \<and> ref2 \<noteq> []"
  then show "containsBinaryField schema sharedSchemas = Some (Inl TypeError)"
    by (subst containsBinaryField.simps) (simp add: containsBinaryField_undefined_store)
next
  assume "containsBinaryField schema sharedSchemas = ret True"
  then show "anyBinaryField schema = Inr True \<or>
    (\<exists>name target.
       sharedSchemaName (member_of schema ''$ref'') = Inr name \<and>
       get_prop sharedSchemas name = Inr target \<and> anyBinaryField target = Inr True)"
    by (rule containsBinaryField_True)
next
  assume "anyBinaryField schema = Inr any \<and> \<not> truthy (member_of schema ''$ref'')"
  then show "containsBinaryField schema sharedSchemas = ret any"
    by (simp add: containsBinaryField_no_ref)
qed

theorem containsBinaryField_two_hops_witness:
  "anyBinaryField (member_of chainStore ''C'') = Inr True \<and>
   containsBinaryField refB chainStore = Some (Inl TypeError) \<and>
   containsBinaryField refC chainStore = ret True \<and>
   (\<exists>name target.
      sharedSchemaName (member_of refC ''$ref'') = Inr name \<and>
      get_prop chainStore name = Inr target \<and> anyBinaryField target = Inr True) \<and>
   containsBinaryField nestedRefC chainStore = ret False"
proof -
  have a: "anyBinaryField refB = Inr False" by code_simp
  have b: "member_of refB ''$ref'' = JStr ''#/components/schemas/B''" by code_simp
  have c: "''#/components/schemas/B'' \<noteq> []" by simp
  have d: "get_prop chainStore (replace_first ''#/components/schemas/'' [] ''#/components/schemas/B'')
           = Inr (JObj [(''$ref'', JStr ''#/components/schemas/C'')])" by code_simp
  have e: "anyBinaryField (JObj [(''$ref'', JStr ''#/components/schemas/C'')]) = Inr False"
    by code_simp
  have f: "member_of (JObj [(''$ref'', JStr ''#/components/schemas/C'')]) ''$ref''
           = JStr ''#/components/schemas/C''" by code_simp
  have g: "''#/components/schemas/C'' \<noteq> []" by simp
  have two: "containsBinaryField refB chainStore = Some (Inl TypeError)"
    using containsBinaryField_two_hops[of refB "''#/components/schemas/B''" chainStore
            "JObj [(''$ref'', JStr ''#/components/schemas/C'')]" "''#/components/schemas/C''"]
          a b c d e f g
    by blast
  have one: "containsBinaryField refC chainStore = ret True" by code_simp
  have top: "anyBinaryField refC \<noteq> Inr True" by code_simp
  have hop: "\<exists>name target.
      sharedSchemaName (member_of refC ''$ref'') = Inr name \<and>
      get_prop chainStore name = Inr target \<and> anyBinaryField target = Inr True"
    using containsBinaryField_two_hops[of refC _ chainStore] one top by blast
  have n1: "anyBinaryField nestedRefC = Inr False" by code_simp
  have n2: "\<not> truthy (member_of nestedRefC ''$ref'')" by code_simp
  have nested: "containsBinaryField nestedRefC chainStore = ret False"
    using containsBinaryField_two_hops[of nestedRefC _ chainStore _ _ False] n1 n2 by blast
  have "anyBinaryField (member_of chainStore ''C'') = Inr True" by code_simp
  with two one hop nested show ?thesis by blast
qed

text \<open>
  C5 (amended). For every converted body schema that has no binary top-level field and
  whose root-level \<open>$ref\<close> names a schema absent from the shared-schema store (a name
  that is not one every object inherits), BinaryDetector fails with a \<open>TypeError\<close>: the
  absent entry is \<open>undefined\<close>, and the recursive call reads its \<open>properties\<close>.
\<close>

theorem containsBinaryField_missing_ref:
  assumes "anyBinaryField schema = Inr False"
    and "member_of schema ''$ref'' = JStr ref" and "ref \<noteq> []"
    and "map_of store (replace_first ''#/components/schemas/'' [] ref) = None"
    and "replace_first ''#/components/schemas/'' [] ref \<notin> set object_prototype_names"
  shows "containsBinaryField schema (JObj store) = Some (Inl TypeError)"
  using assms
  by (subst containsBinaryField.simps)
     (simp add: containsBinaryField_undefined_store inherited_def anyBinaryField_def)

theorem containsBinaryField_missing_ref_witness:
  "containsBinaryField refMissing (JObj chainSchemas) = Some (Inl TypeError)"
proof -
  have a: "anyBinaryField refMissing = Inr False" by code_simp
  have b: "member_of refMissing ''$ref'' = JStr ''#/components/schemas/Missing''" by code_simp
  have c: "''#/components/schemas/Missing'' \<noteq> []" by simp
  have d: "map_of chainSchemas (replace_first ''#/components/schemas/'' [] ''#/components/schemas/Missing'')
           = None" by code_simp
  have e: "replace_first ''#/components/schemas/'' [] ''#/components/schemas/Missing''
           \<notin> set object_prototype_names" by code_simp
  show ?thesis by (rule containsBinaryField_missing_ref[OF a b c d e])
qed

text \<open>Against the built-in store, which holds the schema \<open>Error\<close> only.\<close>

theorem containsBinaryField_missing_ref_throws:
  "containsBinaryField refMissing (doc_schemas DOC_ROOT_TEMPLATE) = Some (Inl TypeError)"
  by code_simp

text \<open>
  C6 (amended). On every schema and every store, a store with a reference cycle
  included, BinaryDetector comes to an end: the call returns a result or throws.
\<close>

theorem containsBinaryField_terminates:
  "\<exists>r. containsBinaryField schema sharedSchemas = Some r"
  by (rule containsBinaryField_returns)

theorem containsBinaryField_terminates_witness:
  "\<exists>r. containsBinaryField refLoop cycleStore = Some r"
  by (rule containsBinaryField_terminates)

text \<open>No schema and store make the call run forever; on the store whose schema \<open>Loop\<close>
  refers to itself, the call for a reference to \<open>Loop\<close> ends after one recursive call.\<close>

theorem containsBinaryField_cycle_ends:
  "containsBinaryField refLoop cycleStore = Some (Inl TypeError) \<and>
   \<not> (\<exists>schema sharedSchemas. containsBinaryField schema sharedSchemas = None)"
proof -
  have "containsBinaryField refLoop cycleStore = Some (Inl TypeError)" by code_simp
  moreover have "containsBinaryField schema sharedSchemas \<noteq> None" for schema sharedSchemas
    using containsBinaryField_returns[of schema sharedSchemas] by auto
  ultimately show ?thesis by blast
qed

section \<open>PathTemplater: the template and the names\<close>

lemma mapComponents_eq:
  "mapComponents pathParams components =
     (pathParams @ map (drop 1) (filter marked components),
      map (\<lambda>segment. if marked segment then ''{'' @ drop 1 segment @ ''}'' else segment) components)"
  by (induction components arbitrary: pathParams) (simp_all add: Let_def)

text \<open>
  C7. For every base path and route path, the path template and the parameter names the
  code computes are those of the specification's algorithm; the base path \<open>/users\<close> with
  the path \<open>/:id\<close> gives the template \<open>/users/{id}\<close> and the names \<open>["id"]\<close>.
\<close>

theorem pathTemplate_spec:
  "pathTemplate basePath path = spec_pathTemplate basePath path \<and>
   pathTemplate ''/users'' ''/:id'' = (''/users/{id}'', [''id''])"
  by (simp add: pathTemplate_def spec_pathTemplate_def mapComponents_eq Let_def)

theorem pathTemplate_spec_witness:
  "pathTemplate ''/api/:version'' ''/items/:itemId/tags'' =
     (''/api/{version}/items/{itemId}/tags'', [''version'', ''itemId'']) \<and>
   spec_pathTemplate ''/api/:version'' ''/items/:itemId/tags'' =
     (''/api/{version}/items/{itemId}/tags'', [''version'', ''itemId''])"
proof -
  have "spec_pathTemplate ''/api/:version'' ''/items/:itemId/tags'' =
          (''/api/{version}/items/{itemId}/tags'', [''version'', ''itemId''])"
    by code_simp
  with pathTemplate_spec[of "''/api/:version''" "''/items/:itemId/tags''"] show ?thesis
    by simp
qed

section \<open>Route parameters: the two query positions\<close>


lemma count_param_append [simp]:
  "count_param f loc (xs @ ys) = count_param f loc xs + count_param f loc ys"
  by (simp add: count_param_def)










section \<open>RequestBodyBuilder: the content type\<close>

text \<open>
  C4. For every route: with no body validator, the Route Object is left as it is, no
  Request Body Object attached; with one, once the schema is converted and BinaryDetector
  has answered, the request body is \<^verbatim>\<open>{ content: { [contentType]: { schema } } }\<close> where the
  content type is \<open>multipart/form-data\<close> when the answer is binary and \<open>application/json\<close>
  when it is not.
\<close>

theorem addRequestBodyParams_contentType:
  "(validatorAt validators ''body'' = None \<longrightarrow>
      addRequestBodyParams joi2json sharedSchemas swaggerReq validators
        = ret (sharedSchemas, swaggerReq)) \<and>
   (\<forall>body schema sharedSchemas' binary.
      validatorAt validators ''body'' = Some body \<and>
      convertSchema joi2json body sharedSchemas = ret (schema, sharedSchemas') \<and>
      containsBinaryField schema sharedSchemas' = ret binary \<longrightarrow>
      addRequestBodyParams joi2json sharedSchemas swaggerReq validators =
        ret (sharedSchemas',
             swaggerReq\<lparr>ro_requestBody :=
               JObj [(''content'',
                      JObj [(if binary then ''multipart/form-data'' else ''application/json'',
                             JObj [(''schema'', schema)])])]\<rparr>))"
  by (auto simp: addRequestBodyParams_def Let_def)

theorem addRequestBodyParams_contentType_witness:
  "addRequestBodyParams example_converter (doc_schemas DOC_ROOT_TEMPLATE) ROUTE_DEF_TEMPLATE None
     = ret (doc_schemas DOC_ROOT_TEMPLATE, ROUTE_DEF_TEMPLATE) \<and>
   addRequestBodyParams example_converter (doc_schemas DOC_ROOT_TEMPLATE) ROUTE_DEF_TEMPLATE
     (Some exampleValidators)
     = ret (doc_schemas DOC_ROOT_TEMPLATE,
            ROUTE_DEF_TEMPLATE\<lparr>ro_requestBody :=
              JObj [(''content'',
                     JObj [(''multipart/form-data'', JObj [(''schema'', uploadSchema)])])]\<rparr>) \<and>
   addRequestBodyParams example_converter (doc_schemas DOC_ROOT_TEMPLATE) ROUTE_DEF_TEMPLATE
     (Some plainValidators)
     = ret (doc_schemas DOC_ROOT_TEMPLATE,
            ROUTE_DEF_TEMPLATE\<lparr>ro_requestBody :=
              JObj [(''content'',
                     JObj [(''application/json'', JObj [(''schema'', idSchema)])])]\<rparr>)"
proof -
  let ?st = "doc_schemas DOC_ROOT_TEMPLATE"
  have none: "validatorAt None ''body'' = (None :: jsval option)" by (simp add: validatorAt_def)
  have up: "validatorAt (Some exampleValidators) ''body'' = Some uploadSchema" by code_simp
  have upc: "convertSchema example_converter uploadSchema ?st = ret (uploadSchema, ?st)"
    by code_simp
  have upb: "containsBinaryField uploadSchema ?st = ret True" by code_simp
  have pl: "validatorAt (Some plainValidators) ''body'' = Some idSchema" by code_simp
  have plc: "convertSchema example_converter idSchema ?st = ret (idSchema, ?st)" by code_simp
  have plb: "containsBinaryField idSchema ?st = ret False" by code_simp
  from addRequestBodyParams_contentType[of None example_converter ?st ROUTE_DEF_TEMPLATE] none
  have 1: "addRequestBodyParams example_converter ?st ROUTE_DEF_TEMPLATE None
             = ret (?st, ROUTE_DEF_TEMPLATE)" by blast
  from addRequestBodyParams_contentType[of "Some exampleValidators" example_converter ?st
         ROUTE_DEF_TEMPLATE] up upc upb
  have 2: "addRequestBodyParams example_converter ?st ROUTE_DEF_TEMPLATE (Some exampleValidators)
             = ret (?st, ROUTE_DEF_TEMPLATE\<lparr>ro_requestBody :=
                 JObj [(''content'',
                        JObj [(if True then ''multipart/form-data'' else ''application/json'',
                               JObj [(''schema'', uploadSchema)])])]\<rparr>)" by blast
  from addRequestBodyParams_contentType[of "Some plainValidators" example_converter ?st
         ROUTE_DEF_TEMPLATE] pl plc plb
  have 3: "addRequestBodyParams example_converter ?st ROUTE_DEF_TEMPLATE (Some plainValidators)
             = ret (?st, ROUTE_DEF_TEMPLATE\<lparr>ro_requestBody :=
                 JObj [(''content'',
                        JObj [(if False then ''multipart/form-data'' else ''application/json'',
                               JObj [(''schema'', idSchema)])])]\<rparr>)" by blast
  from 1 2 3 show ?thesis by simp
qed

section \<open>ResponseExampleBuilder: the last example wins\<close>

lemma addResponseExample_append:
  "addResponseExample joi2json sharedSchemas (xs @ ys) route =
     bindR (addResponseExample joi2json sharedSchemas xs route) (\<lambda>(s, r).
       addResponseExample joi2json s ys r)"
proof (induction xs arbitrary: sharedSchemas route)
  case Nil
  show ?case by simp
next
  case (Cons x xs)
  show ?case
    by (cases "(addOneResponseExample joi2json sharedSchemas route x,
                (\<lambda>(s, r). addResponseExample joi2json s (xs @ ys) r))" rule: bindR.cases)
       (auto simp: Cons.IH)
qed

text \<open>
  C9 (amended). For every list of declared response examples and the example that comes
  last in it: the examples before it are processed first; if the last one has no schema,
  the responses are left as those left them; if it has one, \<open>responses[code]\<close> is the
  Response Object whose description is the example's, or \<open>Normal Response\<close> when the
  example's is falsy, and whose content is keyed by the example's media type, or by
  \<open>application/json\<close> when the example's is falsy, whatever stood under that code before;
  the entries of every other code are unchanged. The defaults are those of \<open>||\<close>: they
  replace a description or media type that is absent and also one that is given and
  falsy, such as the empty string, which the \<open>??\<close> of the claim would keep: see the
  counterexample.
\<close>

theorem addResponseExample_last:
  assumes run: "addResponseExample joi2json sharedSchemas (examples @ [example]) route
                = ret (sharedSchemas2, route2)"
  shows "\<exists>sharedSchemas1 route1.
           addResponseExample joi2json sharedSchemas examples route = ret (sharedSchemas1, route1) \<and>
           (ex_schema example = None \<longrightarrow> route2 = route1 \<and> sharedSchemas2 = sharedSchemas1) \<and>
           (\<forall>validator. ex_schema example = Some validator \<longrightarrow>
              (\<exists>schema code mediaType.
                 convertSchema joi2json validator sharedSchemas1 = ret (schema, sharedSchemas2) \<and>
                 to_string (ex_code example) = Inr code \<and>
                 to_string (js_or (ex_mediaType example) (JStr ''application/json'')) = Inr mediaType \<and>
                 map_of (ro_responses route2) code =
                   Some (JObj [(''description'',
                                js_or (ex_description example) (JStr ''Normal Response'')),
                               (''content'', JObj [(mediaType, JObj [(''schema'', schema)])])]) \<and>
                 (\<forall>other. other \<noteq> code \<longrightarrow>
                    map_of (ro_responses route2) other = map_of (ro_responses route1) other)))"
proof -
  from run obtain s1 r1 where
    pre: "addResponseExample joi2json sharedSchemas examples route = ret (s1, r1)"
    and last: "addOneResponseExample joi2json s1 r1 example = ret (sharedSchemas2, route2)"
    by (auto simp: addResponseExample_append bindR_ret_iff)
  show ?thesis
  proof (cases "ex_schema example")
    case None
    with last pre show ?thesis by (auto simp: addOneResponseExample_def)
  next
    case (Some validator)
    with last pre show ?thesis
      by (auto simp: addOneResponseExample_def bindR_ret_iff update_conv')
  qed
qed

theorem addResponseExample_last_witness:
  "(\<exists>sharedSchemas2 route2.
      addResponseExample example_converter (doc_schemas DOC_ROOT_TEMPLATE)
        ([firstExample] @ [secondExample]) ROUTE_DEF_TEMPLATE = ret (sharedSchemas2, route2) \<and>
      map_of (ro_responses route2) ''200'' =
        Some (JObj [(''description'', JStr ''Normal Response''),
                    (''content'', JObj [(''text/plain'', JObj [(''schema'', emailSchema)])])])) \<and>
   addResponseExample example_converter (doc_schemas DOC_ROOT_TEMPLATE)
     ([firstExample] @ [bareExample]) ROUTE_DEF_TEMPLATE =
   addResponseExample example_converter (doc_schemas DOC_ROOT_TEMPLATE)
     [firstExample] ROUTE_DEF_TEMPLATE"
proof -
  let ?st = "doc_schemas DOC_ROOT_TEMPLATE"
  have "returns (addResponseExample example_converter ?st ([firstExample] @ [secondExample])
                   ROUTE_DEF_TEMPLATE)" by code_simp
  then obtain s2 r2 where run:
    "addResponseExample example_converter ?st ([firstExample] @ [secondExample]) ROUTE_DEF_TEMPLATE
     = ret (s2, r2)"
    by (auto simp: returns_iff)
  have sch: "ex_schema secondExample = Some emailSchema" by code_simp
  have code: "to_string (ex_code secondExample) = Inr ''200''" by code_simp
  have mt: "to_string (js_or (ex_mediaType secondExample) (JStr ''application/json''))
            = Inr ''text/plain''" by code_simp
  have desc: "js_or (ex_description secondExample) (JStr ''Normal Response'')
              = JStr ''Normal Response''" by code_simp
  have conv: "schema = emailSchema"
    if "convertSchema example_converter emailSchema s1 = ret (schema, s2)" for schema s1
  proof -
    have "convertSchema example_converter emailSchema s1 = ret (emailSchema, s1)"
      by (simp add: convertSchema_def example_converter_def emailSchema_def lift_def ret_def)
    with that show ?thesis by simp
  qed
  from addResponseExample_last[OF run] sch code mt desc conv
  have a: "map_of (ro_responses r2) ''200'' =
        Some (JObj [(''description'', JStr ''Normal Response''),
                    (''content'', JObj [(''text/plain'', JObj [(''schema'', emailSchema)])])])"
    by (metis sum.inject(2))
  have "returns (addResponseExample example_converter ?st ([firstExample] @ [bareExample])
                   ROUTE_DEF_TEMPLATE)" by code_simp
  then obtain s3 r3 where run': 
    "addResponseExample example_converter ?st ([firstExample] @ [bareExample]) ROUTE_DEF_TEMPLATE
     = ret (s3, r3)"
    by (auto simp: returns_iff)
  have bare: "ex_schema bareExample = None" by code_simp
  from addResponseExample_last[OF run'] bare
  have b: "addResponseExample example_converter ?st [firstExample] ROUTE_DEF_TEMPLATE = ret (s3, r3)"
    by auto
  from run a run' b show ?thesis by simp
qed

text \<open>An example with the empty string as description and as media type: the code
  stores the defaults, where \<open>??\<close> keeps the empty strings.\<close>

theorem addResponseExample_blank_defaults:
  "addResponseExample example_converter (doc_schemas DOC_ROOT_TEMPLATE) [blankExample]
     ROUTE_DEF_TEMPLATE =
   ret (doc_schemas DOC_ROOT_TEMPLATE,
        ROUTE_DEF_TEMPLATE
          \<lparr>ro_responses :=
             AList.update ''200''
               (JObj [(''description'', JStr ''Normal Response''),
                      (''content'', JObj [(''application/json'', JObj [(''schema'', idSchema)])])])
               (ro_responses ROUTE_DEF_TEMPLATE)\<rparr>) \<and>
   nullish_or (ex_description blankExample) (JStr ''Normal Response'') = JStr [] \<and>
   nullish_or (ex_mediaType blankExample) (JStr ''application/json'') = JStr []"
  by code_simp

section \<open>TagRegistrar: one tag per name\<close>

lemma buildSwaggerRequest_tags:
  assumes "buildSwaggerRequest joi2json docEntity routeEntity tag basePath routeDef = ret docEntity'"
  shows "doc_tags docEntity' = doc_tags docEntity"
proof -
  obtain pathString pathParams where
    pt: "pathTemplate basePath (rd_path routeDef) = (pathString, pathParams)"
    by (cases "pathTemplate basePath (rd_path routeDef)")
  from assms obtain paths s where "docEntity' = docEntity\<lparr>doc_paths := paths, doc_schemas := s\<rparr>"
    unfolding buildSwaggerRequest_def Let_def pt prod.case bindR_pair_ret_iff
    by (auto simp: ret_def)
  then show ?thesis by simp
qed

lemma buildRoutes_tags:
  assumes "buildRoutes joi2json routeEntity tag basePath docEntity routeDefs = ret docEntity'"
  shows "doc_tags docEntity' = doc_tags docEntity"
  using assms
  by (induction routeDefs arbitrary: docEntity)
     (auto simp: bindR_ret_iff dest: buildSwaggerRequest_tags)

lemma buildModuleRoutes_tags:
  assumes "buildModuleRoutes joi2json docEntity routeEntity moduleRoutes = ret docEntity'"
  shows "doc_tags docEntity' = registerTag (doc_tags docEntity) (tagObjectOf moduleRoutes)"
  using assms
  by (auto simp: buildModuleRoutes_def Let_def registerTag_def find_None_iff image_iff
           dest!: buildRoutes_tags split: if_splits)

lemma buildModules_tags:
  assumes "buildModules joi2json routeEntity docEntity ms = ret docEntity'"
  shows "doc_tags docEntity' = foldl registerTag (doc_tags docEntity) (map tagObjectOf ms)"
  using assms
  by (induction ms arbitrary: docEntity)
     (auto simp: bindR_ret_iff dest!: buildModuleRoutes_tags)

lemma registerTag_names:
  "tg_name ` set (foldl registerTag tags ts) = tg_name ` set tags \<union> tg_name ` set ts"
  by (induction ts arbitrary: tags) (auto simp: registerTag_def)

lemma registerTag_distinct:
  "distinct (map tg_name tags) \<Longrightarrow> distinct (map tg_name (foldl registerTag tags ts))"
  by (induction ts arbitrary: tags) (auto simp: registerTag_def)

lemma registerTag_keeps:
  "t \<in> set tags \<Longrightarrow> t \<in> set (foldl registerTag tags ts)"
  by (induction ts arbitrary: tags) (auto simp: registerTag_def)

lemma registerTag_first:
  assumes "i < length ts" and "tg_name (ts ! i) \<notin> tg_name ` set tags"
    and "\<forall>j<i. tg_name (ts ! j) \<noteq> tg_name (ts ! i)"
  shows "ts ! i \<in> set (foldl registerTag tags ts)"
  using assms
proof (induction ts arbitrary: tags i)
  case Nil
  then show ?case by simp
next
  case (Cons t ts)
  show ?case
  proof (cases i)
    case 0
    with Cons.prems have "t \<in> set (registerTag tags t)" by (simp add: registerTag_def)
    then show ?thesis using 0 by (simp add: registerTag_keeps)
  next
    case (Suc k)
    with Cons.prems have k: "k < length ts" and ne: "tg_name t \<noteq> tg_name (ts ! k)"
      and fresh: "tg_name (ts ! k) \<notin> tg_name ` set tags"
      and first: "\<forall>j<k. tg_name (ts ! j) \<noteq> tg_name (ts ! k)"
      by auto
    have "tg_name (ts ! k) \<notin> tg_name ` set (registerTag tags t)"
      using ne fresh by (auto simp: registerTag_def)
    from Cons.IH[OF k this first] show ?thesis using Suc by simp
  qed
qed

lemma tagObjectOf_resolve [simp]: "tagObjectOf (resolve s m) = tagObjectOf m"
  by (simp add: tagObjectOf_def tagOf_def moduleId_def resolve_def)

lemma tg_name_tagObjectOf [simp]: "tg_name (tagObjectOf m) = tagOf m"
  by (simp add: tagObjectOf_def)

text \<open>
  C8. After \<^verbatim>\<open>convert\<close> has processed any list of modules, starting from a tag list
  without repeated names (the built-in one is empty), the document's tag list has at
  most one Tag Object per name; its names are those it started with and those the
  modules derive; and for a name the list did not start with, the Tag Object is that of
  the first module that derives the name, with that module's description: a later
  module of the same name changes nothing.
\<close>

theorem convert_tags:
  assumes skel: "distinct (map tg_name (initialTags docSkeleton))"
    and run: "snd (convert joi2json terms_keys extract_key s allModuleRoutes docSkeleton routeSkeleton)
              = ret docEntity"
  shows "distinct (map tg_name (doc_tags docEntity)) \<and>
         tg_name ` set (doc_tags docEntity) =
           tg_name ` set (initialTags docSkeleton) \<union> tagOf ` set allModuleRoutes \<and>
         (\<forall>i<length allModuleRoutes.
            tagOf (allModuleRoutes ! i) \<notin> tg_name ` set (initialTags docSkeleton) \<and>
            (\<forall>j<i. tagOf (allModuleRoutes ! j) \<noteq> tagOf (allModuleRoutes ! i)) \<longrightarrow>
            tagObjectOf (allModuleRoutes ! i) \<in> set (doc_tags docEntity))"
proof -
  let ?ts = "map tagObjectOf allModuleRoutes"
  let ?t0 = "initialTags docSkeleton"
  from run obtain s' where
    "buildModules joi2json (assignRoute ROUTE_DEF_TEMPLATE routeSkeleton)
       (assignDoc DOC_ROOT_TEMPLATE docSkeleton) (map (resolve s') allModuleRoutes) = ret docEntity"
    by (auto simp: convert_def Let_def ret_def split: sum.splits)
  from buildModules_tags[OF this]
  have tags: "doc_tags docEntity = foldl registerTag ?t0 ?ts"
    by (simp add: assignDoc_def initialTags_def DOC_ROOT_TEMPLATE_def comp_def)
  have "distinct (map tg_name (doc_tags docEntity))"
    unfolding tags using skel by (rule registerTag_distinct)
  moreover have "tg_name ` set (doc_tags docEntity) =
                 tg_name ` set ?t0 \<union> tagOf ` set allModuleRoutes"
    unfolding tags registerTag_names by (auto simp: image_iff)
  moreover have "tagObjectOf (allModuleRoutes ! i) \<in> set (doc_tags docEntity)"
    if "i < length allModuleRoutes" "tagOf (allModuleRoutes ! i) \<notin> tg_name ` set ?t0"
      "\<forall>j<i. tagOf (allModuleRoutes ! j) \<noteq> tagOf (allModuleRoutes ! i)" for i
  proof -
    have "?ts ! i \<in> set (foldl registerTag ?t0 ?ts)"
      by (rule registerTag_first) (use that in auto)
    then show ?thesis using that by (simp add: tags)
  qed
  ultimately show ?thesis by blast
qed

theorem convert_tags_witness:
  "\<exists>docEntity.
     snd (convert example_converter example_terms_keys example_extract_key exampleStore
            [usersModule, usersAgain] noDocSkeleton noRouteSkeleton) = ret docEntity \<and>
     distinct (map tg_name (doc_tags docEntity)) \<and>
     tg_name ` set (doc_tags docEntity) = {''users''} \<and>
     \<lparr>tg_name = ''users'', tg_description = ''Users''\<rparr> \<in> set (doc_tags docEntity)"
proof -
  let ?ms = "[usersModule, usersAgain]"
  have "returns (snd (convert example_converter example_terms_keys example_extract_key
                        exampleStore ?ms noDocSkeleton noRouteSkeleton))" by code_simp
  then obtain d where run:
    "snd (convert example_converter example_terms_keys example_extract_key exampleStore
            ?ms noDocSkeleton noRouteSkeleton) = ret d"
    by (auto simp: returns_iff)
  have init: "initialTags noDocSkeleton = []" by code_simp
  have skel: "distinct (map tg_name (initialTags noDocSkeleton))" by (simp add: init)
  have t1: "tagOf usersModule = ''users''" by code_simp
  have t2: "tagOf usersAgain = ''users''" by code_simp
  have o1: "tagObjectOf usersModule = \<lparr>tg_name = ''users'', tg_description = ''Users''\<rparr>"
    by code_simp
  from convert_tags[OF skel run] have
    di: "distinct (map tg_name (doc_tags d))" and
    na: "tg_name ` set (doc_tags d) = tg_name ` set (initialTags noDocSkeleton) \<union> tagOf ` set ?ms" and
    fi: "\<forall>i<length ?ms.
            tagOf (?ms ! i) \<notin> tg_name ` set (initialTags noDocSkeleton) \<and>
            (\<forall>j<i. tagOf (?ms ! j) \<noteq> tagOf (?ms ! i)) \<longrightarrow>
            tagObjectOf (?ms ! i) \<in> set (doc_tags d)"
    by blast+
  from fi[rule_format, of 0] have "tagObjectOf usersModule \<in> set (doc_tags d)"
    by (simp add: init)
  with di na run show ?thesis by (simp add: init t1 t2 o1)
qed

section \<open>convert: the side channel on the route definitions\<close>

subsection \<open>The returned document\<close>

lemma buildSwaggerRequest_ignores_parameters [simp]:
  "buildSwaggerRequest joi2json docEntity routeEntity tag basePath (routeDef\<lparr>rd_parameters := ps\<rparr>)
   = buildSwaggerRequest joi2json docEntity routeEntity tag basePath routeDef"
  by (simp add: buildSwaggerRequest_def)





subsection \<open>The first loop\<close>










text \<open>A throw of the first loop is the outcome of \<^verbatim>\<open>convert\<close>, with the store as the throw
  leaves it; and a call that returns a document has run its first loop to the end.\<close>

lemma convert_first_loop_throws:
  assumes "firstLoop terms_keys extract_key s (concat (map rm_routes allModuleRoutes)) = Inl (e, s')"
  shows "convert joi2json terms_keys extract_key s allModuleRoutes docSkeleton routeSkeleton
         = (s', Some (Inl e))"
  using assms by (simp add: convert_def Let_def)

lemma convert_returns_first_loop:
  assumes "snd (convert joi2json terms_keys extract_key s allModuleRoutes docSkeleton routeSkeleton)
           = ret docEntity"
  shows "\<exists>s'. firstLoop terms_keys extract_key s (concat (map rm_routes allModuleRoutes)) = Inr s'"
  using assms by (auto simp: convert_def Let_def ret_def split: sum.splits)

text \<open>The key \<open>a.b\<close> of the third example module makes the extraction throw: the call
  throws with the route before it and the route itself given their arrays, the key
  before it pushed, and the routes of the module after it untouched.\<close>

lemma convert_throws_midway:
  "snd (convert example_converter example_terms_keys example_extract_key exampleStore
          [dottedModule, usersModule] noDocSkeleton noRouteSkeleton) = Some (Inl ConverterError) \<and>
   map (\<lambda>a. rd_parameters
              (st_routes
                 (fst (convert example_converter example_terms_keys example_extract_key
                         exampleStore [dottedModule, usersModule] noDocSkeleton noRouteSkeleton))
                 a))
       [1, 2, 0] = [Some 0, Some 1, None] \<and>
   map sp_name
     (st_arrays
        (fst (convert example_converter example_terms_keys example_extract_key
                exampleStore [dottedModule, usersModule] noDocSkeleton noRouteSkeleton))
        1) = [JStr ''id'']"
  by code_simp




end
